theory Spec2Isabelle
  imports Complex_Main "HOL-Library.Multiset" "HOL-Library.List_Lexorder" "HOL-Library.Char_ord"
    "HOL-Library.Product_Lexorder"
begin

section \<open>Data model\<close>

text \<open>
  The programs work on pandas data frames loaded from a CSV file of publication
  metadata. A cell is a missing value (NaN, None and NaT alike: everything
  \<^verbatim>\<open>isnull\<close> answers True for), a text, an integer, a boolean or a timestamp
  (year, month, day). Floating-point cells are not modelled; text is read as ASCII.
\<close>

datatype cell = Null | StrV string | IntV int | BoolV bool | Stamp int nat nat

text \<open>
  A data frame is its index length and its columns in order, each a name with one cell
  per row. A well-formed frame has distinct column names and columns of the index length.
\<close>

record dataframe =
  nrows :: nat
  cols :: "(string \<times> cell list) list"


datatype error = KeyError string | AttributeError | ValueError | TypeError | FileNotFoundError

definition bnd :: "error + 'a \<Rightarrow> ('a \<Rightarrow> error + 'b) \<Rightarrow> error + 'b" where
  "bnd m f = (case m of Inl e \<Rightarrow> Inl e | Inr x \<Rightarrow> f x)"

section \<open>Text primitives of the Python runtime\<close>

definition code :: "char \<Rightarrow> nat" where
  "code c = of_char c"

text \<open>\<^verbatim>\<open>str.isspace\<close> on ASCII: tab, LF, VT, FF, CR, the separators 28..31 and space.\<close>

definition is_space :: "char \<Rightarrow> bool" where
  "is_space c \<longleftrightarrow> (9 \<le> code c \<and> code c \<le> 13) \<or> (28 \<le> code c \<and> code c \<le> 32)"

definition is_upper :: "char \<Rightarrow> bool" where
  "is_upper c \<longleftrightarrow> 65 \<le> code c \<and> code c \<le> 90"

definition is_lower :: "char \<Rightarrow> bool" where
  "is_lower c \<longleftrightarrow> 97 \<le> code c \<and> code c \<le> 122"

definition is_letter :: "char \<Rightarrow> bool" where
  "is_letter c \<longleftrightarrow> is_upper c \<or> is_lower c"

definition is_digit :: "char \<Rightarrow> bool" where
  "is_digit c \<longleftrightarrow> 48 \<le> code c \<and> code c \<le> 57"

text \<open>The regular expression class \<^verbatim>\<open>\w\<close> on ASCII: letters, digits and the underscore.\<close>

definition is_wordch :: "char \<Rightarrow> bool" where
  "is_wordch c \<longleftrightarrow> is_letter c \<or> is_digit c \<or> code c = 95"

definition lower_ch :: "char \<Rightarrow> char" where
  "lower_ch c = (if is_upper c then char_of (code c + 32) else c)"

definition upper_ch :: "char \<Rightarrow> char" where
  "upper_ch c = (if is_lower c then char_of (code c - 32) else c)"

definition lower :: "string \<Rightarrow> string" where
  "lower s = map lower_ch s"

text \<open>
  \<^verbatim>\<open>str.title()\<close>: a letter that follows a letter is lowercased, a letter that
  follows anything else (or starts the text) is uppercased, other characters stay.
\<close>

fun title_from :: "bool \<Rightarrow> string \<Rightarrow> string" where
  "title_from prev [] = []"
| "title_from prev (c # cs) =
     (if is_letter c then (if prev then lower_ch c else upper_ch c) # title_from True cs
      else c # title_from False cs)"

definition title :: "string \<Rightarrow> string" where
  "title s = title_from False s"

text \<open>\<^verbatim>\<open>str.strip()\<close>: whitespace is removed at both ends.\<close>

definition strip :: "string \<Rightarrow> string" where
  "strip s = rev (dropWhile is_space (rev (dropWhile is_space s)))"

text \<open>
  The maximal runs of characters satisfying \<open>P\<close>, left to right; \<open>acc\<close> holds the
  current run reversed.
\<close>

fun runs :: "(char \<Rightarrow> bool) \<Rightarrow> string \<Rightarrow> string \<Rightarrow> string list" where
  "runs P acc [] = (if acc = [] then [] else [rev acc])"
| "runs P acc (c # cs) =
     (if P c then runs P (c # acc) cs
      else (if acc = [] then [] else [rev acc]) @ runs P [] cs)"

text \<open>\<^verbatim>\<open>str.split()\<close> without argument: the maximal runs of non-whitespace.\<close>

definition split :: "string \<Rightarrow> string list" where
  "split s = runs (\<lambda>c. \<not> is_space c) [] s"

text \<open>\<^verbatim>\<open>' '.join(xs)\<close>\<close>

fun join :: "string list \<Rightarrow> string" where
  "join [] = []"
| "join [x] = x"
| "join (x # y # ys) = x @ '' '' @ join (y # ys)"

text \<open>
  \<^verbatim>\<open>re.findall(r'\b[a-zA-Z]{3,}\b', s)\<close>. A match starts at a word boundary with a
  letter, so at the start of a maximal run of word characters; the greedy letter run must
  end at a word boundary, and no shorter run does (the next character would be a letter),
  so the whole run of word characters consists of letters. The search resumes after a
  match, and a failed start fails throughout its run. The matches are therefore the
  maximal runs of word characters that are all letters and at least three long.
\<close>

definition findall_words :: "string \<Rightarrow> string list" where
  "findall_words s = filter (\<lambda>w. 3 \<le> length w \<and> list_all is_letter w) (runs is_wordch [] s)"

text \<open>Decimal digits of a natural number, and \<^verbatim>\<open>str(x)\<close> of a cell.\<close>

fun show_nat :: "nat \<Rightarrow> string" where
  "show_nat n = (if n < 10 then [char_of (48 + n)] else show_nat (n div 10) @ [char_of (48 + n mod 10)])"

declare show_nat.simps [simp del]

definition show_int :: "int \<Rightarrow> string" where
  "show_int i = (if i < 0 then ''-'' @ show_nat (nat (- i)) else show_nat (nat i))"

definition pad2 :: "nat \<Rightarrow> string" where
  "pad2 n = (if n < 10 then ''0'' @ show_nat n else show_nat n)"

fun py_str :: "cell \<Rightarrow> string" where
  "py_str Null = ''nan''"
| "py_str (StrV s) = s"
| "py_str (IntV i) = show_int i"
| "py_str (BoolV b) = (if b then ''True'' else ''False'')"
| "py_str (Stamp y m d) = show_int y @ ''-'' @ pad2 m @ ''-'' @ pad2 d @ '' 00:00:00''"

section \<open>Data frame primitives of pandas\<close>

definition has_col :: "dataframe \<Rightarrow> string \<Rightarrow> bool" where
  "has_col df c \<longleftrightarrow> c \<in> set (map fst (cols df))"

text \<open>\<^verbatim>\<open>df[c]\<close> raises KeyError when the column is absent.\<close>

definition getcol :: "dataframe \<Rightarrow> string \<Rightarrow> error + cell list" where
  "getcol df c = (case map_of (cols df) c of None \<Rightarrow> Inl (KeyError c) | Some xs \<Rightarrow> Inr xs)"

text \<open>\<^verbatim>\<open>df[c] = series\<close> replaces the column where it stands, or appends a new one.\<close>

fun upd_col :: "string \<Rightarrow> cell list \<Rightarrow> (string \<times> cell list) list \<Rightarrow> (string \<times> cell list) list" where
  "upd_col c xs [] = [(c, xs)]"
| "upd_col c xs (p # ps) = (if fst p = c then (c, xs) # ps else p # upd_col c xs ps)"

definition setcol :: "dataframe \<Rightarrow> string \<Rightarrow> cell list \<Rightarrow> dataframe" where
  "setcol df c xs = df\<lparr>cols := upd_col c xs (cols df)\<rparr>"

text \<open>\<^verbatim>\<open>df[c] = scalar\<close> broadcasts the scalar over the index.\<close>

definition setcol_scalar :: "dataframe \<Rightarrow> string \<Rightarrow> cell \<Rightarrow> dataframe" where
  "setcol_scalar df c v = setcol df c (replicate (nrows df) v)"

definition isnull :: "cell \<Rightarrow> bool" where
  "isnull c \<longleftrightarrow> c = Null"

definition fillna :: "cell \<Rightarrow> cell list \<Rightarrow> cell list" where
  "fillna v xs = map (\<lambda>c. if isnull c then v else c) xs"

text \<open>
  \<^verbatim>\<open>pd.to_datetime(series, errors='coerce')\<close>. The date parser of the library is the
  parameter \<open>parse\<close>: it answers the date of a cell that holds one and \<open>None\<close> for a
  cell it cannot read. A missing cell and an unreadable one both become NaT.
\<close>

definition to_datetime_cell :: "(cell \<Rightarrow> (int \<times> nat \<times> nat) option) \<Rightarrow> cell \<Rightarrow> cell" where
  "to_datetime_cell parse c =
     (if isnull c then Null
      else (case parse c of None \<Rightarrow> Null | Some (y, m, d) \<Rightarrow> Stamp y m d))"

definition to_datetime :: "(cell \<Rightarrow> (int \<times> nat \<times> nat) option) \<Rightarrow> cell list \<Rightarrow> cell list" where
  "to_datetime parse xs = map (to_datetime_cell parse) xs"

text \<open>
  \<^verbatim>\<open>series.dt.year\<close>: the accessor exists on a column of timestamps (NaT included) and
  raises AttributeError on any other; NaT has no year.
\<close>

fun is_datetime :: "cell \<Rightarrow> bool" where
  "is_datetime Null = True"
| "is_datetime (Stamp y m d) = True"
| "is_datetime _ = False"

fun year_of :: "cell \<Rightarrow> cell" where
  "year_of (Stamp y m d) = IntV y"
| "year_of _ = Null"

definition dt_year :: "cell list \<Rightarrow> error + cell list" where
  "dt_year xs = (if list_all is_datetime xs then Inr (map year_of xs) else Inl AttributeError)"

text \<open>
  \<^verbatim>\<open>series.astype(int)\<close> on a column of years: a missing value cannot be cast and
  raises; only integers and missing values reach this cast in the programs.
\<close>

fun is_int :: "cell \<Rightarrow> bool" where
  "is_int (IntV i) = True"
| "is_int _ = False"

definition astype_int :: "cell list \<Rightarrow> error + cell list" where
  "astype_int xs = (if list_all is_int xs then Inr xs else Inl ValueError)"

text \<open>\<^verbatim>\<open>lambda x: len(str(x).split())\<close> and \<^verbatim>\<open>series > 0\<close>\<close>

definition word_count :: "cell \<Rightarrow> cell" where
  "word_count x = IntV (int (length (split (py_str x))))"

fun gt0 :: "cell \<Rightarrow> cell" where
  "gt0 (IntV i) = BoolV (0 < i)"
| "gt0 _ = BoolV False"

section \<open>The cleaner of src/src/main.py\<close>

definition clean_and_prepare_data_main ::
  "(cell \<Rightarrow> (int \<times> nat \<times> nat) option) \<Rightarrow> dataframe \<Rightarrow> error + dataframe" where
  "clean_and_prepare_data_main parse df =
     bnd (if has_col df ''title''
          then bnd (getcol df ''title'') (\<lambda>t. Inr (setcol df ''title'' (fillna (StrV ''Unknown Title'') t)))
          else Inr (setcol_scalar df ''title'' (StrV ''Unknown Title''))) (\<lambda>df1.
     bnd (if has_col df1 ''abstract''
          then bnd (getcol df1 ''abstract'') (\<lambda>a. Inr (setcol df1 ''abstract'' (fillna (StrV []) a)))
          else Inr (setcol_scalar df1 ''abstract'' (StrV []))) (\<lambda>df2.
     bnd (if has_col df2 ''journal''
          then bnd (getcol df2 ''journal'') (\<lambda>j. Inr (setcol df2 ''journal'' (fillna (StrV ''Unknown Journal'') j)))
          else Inr (setcol_scalar df2 ''journal'' (StrV ''Unknown Journal''))) (\<lambda>df3.
     bnd (if has_col df3 ''publish_time''
          then bnd (getcol df3 ''publish_time'') (\<lambda>p.
               let df4 = setcol df3 ''publish_time'' (to_datetime parse p) in
               bnd (getcol df4 ''publish_time'') (\<lambda>p'.
               bnd (dt_year p') (\<lambda>y.
               let df5 = setcol df4 ''year'' y in
               bnd (getcol df5 ''year'') (\<lambda>y'.
               bnd (astype_int (fillna (IntV 2020) y')) (\<lambda>y2.
               Inr (setcol df5 ''year'' y2))))))
          else Inr (setcol_scalar df3 ''year'' (IntV 2020))) (\<lambda>df6.
     bnd (getcol df6 ''abstract'') (\<lambda>a.
     let df7 = setcol df6 ''abstract_word_count'' (map word_count a) in
     bnd (getcol df7 ''title'') (\<lambda>t.
     let df8 = setcol df7 ''title_word_count'' (map word_count t) in
     bnd (getcol df8 ''abstract_word_count'') (\<lambda>w.
     Inr (setcol df8 ''has_abstract'' (map gt0 w)))))))))"

section \<open>The cleaner of src/src/data/data_cleaning.py\<close>

text \<open>\<^verbatim>\<open>df[names]\<close>: the named columns in the order asked, KeyError on an absent one.\<close>

fun select_cols :: "(string \<times> cell list) list \<Rightarrow> string list \<Rightarrow> error + (string \<times> cell list) list" where
  "select_cols ps [] = Inr []"
| "select_cols ps (c # cs) =
     (case map_of ps c of
        None \<Rightarrow> Inl (KeyError c)
      | Some xs \<Rightarrow> bnd (select_cols ps cs) (\<lambda>r. Inr ((c, xs) # r)))"

definition select :: "dataframe \<Rightarrow> string list \<Rightarrow> error + dataframe" where
  "select df cs = bnd (select_cols (cols df) cs) (\<lambda>ps. Inr (df\<lparr>cols := ps\<rparr>))"

text \<open>
  The \<^verbatim>\<open>.str\<close> accessor of a column without missing values (the journal column has
  been filled before): a column of numbers, booleans or timestamps only has no such
  accessor (AttributeError); in a column that holds text, a method of the accessor maps
  each text and answers NaN for any other cell.
\<close>

fun is_str :: "cell \<Rightarrow> bool" where
  "is_str (StrV s) = True"
| "is_str _ = False"

fun str_apply :: "(string \<Rightarrow> string) \<Rightarrow> cell \<Rightarrow> cell" where
  "str_apply f (StrV s) = StrV (f s)"
| "str_apply f _ = Null"

definition str_method :: "(string \<Rightarrow> string) \<Rightarrow> cell list \<Rightarrow> error + cell list" where
  "str_method f xs =
     (if xs \<noteq> [] \<and> list_all (\<lambda>c. \<not> is_str c) xs then Inl AttributeError
      else Inr (map (str_apply f) xs))"

definition important_cols :: "string list" where
  "important_cols = [''title'', ''abstract'', ''authors'', ''journal'', ''publish_time'',
     ''source_x'', ''has_full_text'', ''cord_uid'']"

definition clean_and_prepare_data_dc ::
  "(cell \<Rightarrow> (int \<times> nat \<times> nat) option) \<Rightarrow> dataframe \<Rightarrow> error + dataframe" where
  "clean_and_prepare_data_dc parse df =
     (let available_cols = filter (has_col df) important_cols in
      bnd (select df available_cols) (\<lambda>df0.
      bnd (getcol df0 ''title'') (\<lambda>t.
      let df1 = setcol df0 ''title'' (fillna (StrV ''Unknown Title'') t) in
      bnd (getcol df1 ''abstract'') (\<lambda>a.
      let df2 = setcol df1 ''abstract'' (fillna (StrV []) a) in
      bnd (getcol df2 ''publish_time'') (\<lambda>p.
      let df3 = setcol df2 ''publish_time'' (to_datetime parse p) in
      bnd (getcol df3 ''publish_time'') (\<lambda>p'.
      bnd (dt_year p') (\<lambda>y.
      let df4 = setcol df3 ''year'' y in
      bnd (getcol df4 ''abstract'') (\<lambda>a'.
      let df5 = setcol df4 ''abstract_word_count'' (map word_count a') in
      bnd (getcol df5 ''title'') (\<lambda>t'.
      let df6 = setcol df5 ''title_word_count'' (map word_count t') in
      bnd (getcol df6 ''abstract_word_count'') (\<lambda>w.
      let df7 = setcol df6 ''has_abstract'' (map gt0 w) in
      bnd (getcol df7 ''journal'') (\<lambda>j.
      let df8 = setcol df7 ''journal'' (fillna (StrV ''Unknown Journal'') j) in
      bnd (getcol df8 ''journal'') (\<lambda>j'.
      bnd (str_method strip j') (\<lambda>j2.
      bnd (str_method title j2) (\<lambda>j3.
      Inr (setcol df8 ''journal'' j3)))))))))))))))"

section \<open>Aggregations\<close>

text \<open>
  Counting as \<^verbatim>\<open>Series.value_counts()\<close> and \<^verbatim>\<open>collections.Counter\<close> do: each distinct
  value once, in the order of first appearance, with the number of its occurrences.
\<close>

definition uniq :: "'a list \<Rightarrow> 'a list" where
  "uniq xs = rev (remdups (rev xs))"

definition tally :: "'a list \<Rightarrow> ('a \<times> nat) list" where
  "tally xs = map (\<lambda>k. (k, count_list xs k)) (uniq xs)"

text \<open>Ordering by count, largest first; the sort is stable, as Python's \<^verbatim>\<open>sorted\<close> is.
  The theorems below do not depend on how ties are ordered.\<close>

definition sort_desc :: "('a \<times> nat) list \<Rightarrow> ('a \<times> nat) list" where
  "sort_desc r = sort_key (\<lambda>p. - int (snd p)) r"

text \<open>\<^verbatim>\<open>series.value_counts()\<close>: missing values are dropped (dropna=True is the default).\<close>

definition value_counts :: "cell list \<Rightarrow> (cell \<times> nat) list" where
  "value_counts xs = sort_desc (tally (filter (\<lambda>c. \<not> isnull c) xs))"

text \<open>
  \<^verbatim>\<open>series.sort_index()\<close>: by the index value, ascending. Numbers (booleans among them),
  texts and timestamps are each ordered among themselves; an index of mixed kinds cannot
  be compared and raises TypeError.
\<close>

fun is_number :: "cell \<Rightarrow> bool" where
  "is_number (IntV i) = True"
| "is_number (BoolV b) = True"
| "is_number _ = False"

fun num_of :: "cell \<Rightarrow> int" where
  "num_of (IntV i) = i"
| "num_of (BoolV b) = (if b then 1 else 0)"
| "num_of _ = 0"

fun is_stamp :: "cell \<Rightarrow> bool" where
  "is_stamp (Stamp y m d) = True"
| "is_stamp _ = False"

fun stamp_of :: "cell \<Rightarrow> int \<times> nat \<times> nat" where
  "stamp_of (Stamp y m d) = (y, m, d)"
| "stamp_of _ = (0, 0, 0)"

definition sort_index :: "(cell \<times> nat) list \<Rightarrow> error + (cell \<times> nat) list" where
  "sort_index r =
     (if list_all (\<lambda>p. is_number (fst p)) r then Inr (sort_key (\<lambda>p. num_of (fst p)) r)
      else if list_all (\<lambda>p. is_str (fst p)) r then Inr (sort_key (\<lambda>p. py_str (fst p)) r)
      else if list_all (\<lambda>p. is_stamp (fst p)) r then Inr (sort_key (\<lambda>p. stamp_of (fst p)) r)
      else Inl TypeError)"

text \<open>\<^verbatim>\<open>series.head(n)\<close>: the first \<open>n\<close> entries, or all but the last \<open>-n\<close> when
  \<open>n\<close> is negative.\<close>

definition head :: "int \<Rightarrow> 'a list \<Rightarrow> 'a list" where
  "head n xs = (if 0 \<le> n then take (nat n) xs else take (length xs - nat (- n)) xs)"

text \<open>analyze_publication_trends (analysis_visualization.py and main.py): the counts per
  year, ordered by year. The chart it draws is no part of the result.\<close>

definition analyze_publication_trends :: "dataframe \<Rightarrow> error + (cell \<times> nat) list" where
  "analyze_publication_trends df = bnd (getcol df ''year'') (\<lambda>y. sort_index (value_counts y))"

text \<open>analyze_journals (analysis_visualization.py and main.py): the fifteen most frequent
  journals.\<close>

definition analyze_journals :: "dataframe \<Rightarrow> error + (cell \<times> nat) list" where
  "analyze_journals df = bnd (getcol df ''journal'') (\<lambda>j. Inr (head 15 (value_counts j)))"

text \<open>The journal tab of the dashboards, with the requested number \<open>top_n\<close> of the
  slider: src/app.py counts the column directly, src/src/app/app.py through
  safe_value_counts.\<close>

definition top_journals :: "int \<Rightarrow> dataframe \<Rightarrow> error + (cell \<times> nat) list" where
  "top_journals top_n df = bnd (getcol df ''journal'') (\<lambda>j. Inr (head top_n (value_counts j)))"



text \<open>
  The word frequencies of titles, as all variants of analyze_titles compute them from
  their own stop-word set: the titles joined by spaces and lowercased, the words found by
  the pattern, the stop words removed, the rest counted.
\<close>

definition title_word_freq :: "string list \<Rightarrow> cell list \<Rightarrow> (string \<times> nat) list" where
  "title_word_freq stop_words titles =
     (let all_titles = join (map py_str titles);
          words = findall_words (lower all_titles);
          filtered_words = filter (\<lambda>word. word \<notin> set stop_words) words
      in tally filtered_words)"

definition stop_words_av :: "string list" where
  "stop_words_av = [''the'', ''and'', ''of'', ''in'', ''to'', ''a'', ''for'', ''with'', ''on'', ''by'',
     ''as'', ''an'', ''from'', ''that'', ''this'', ''is'', ''are'', ''was'', ''were'']"

definition stop_words_main :: "string list" where
  "stop_words_main = [''the'', ''and'', ''of'', ''in'', ''to'', ''a'', ''for'', ''with'', ''on'', ''by'',
     ''as'', ''an'', ''from'', ''that'', ''this'', ''is'', ''are'', ''was'', ''were'',
     ''covid'', ''19'', ''sars'', ''cov'', ''2'', ''coronavirus'', ''study'', ''research'',
     ''based'', ''using'', ''analysis'', ''during'', ''among'', ''between'']"

text \<open>analyze_titles of analysis_visualization.py drops missing titles; it unpacks the
  twenty most common words for the chart, which raises ValueError when there is none.\<close>

definition analyze_titles :: "dataframe \<Rightarrow> error + (string \<times> nat) list" where
  "analyze_titles df =
     bnd (getcol df ''title'') (\<lambda>t.
     let word_freq = title_word_freq stop_words_av (filter (\<lambda>c. \<not> isnull c) t);
         top_words = take 20 (sort_desc word_freq)
     in if top_words = [] then Inl ValueError else Inr word_freq)"

text \<open>analyze_titles of main.py keeps every title and has the longer stop-word set.\<close>

definition analyze_titles_main :: "dataframe \<Rightarrow> error + (string \<times> nat) list" where
  "analyze_titles_main df =
     bnd (getcol df ''title'') (\<lambda>t.
     let word_freq = title_word_freq stop_words_main t;
         top_words = take 20 (sort_desc word_freq)
     in if top_words = [] then Inl ValueError else Inr word_freq)"

text \<open>
  analyze_missing_data: the percentage of missing cells of each column, the columns with
  none left out, ordered by percentage, largest first. The percentages are exact rationals
  here; the program computes them in floating point, which orders them alike for any
  frame that fits in memory. On a frame without rows every quotient is NaN, which is not
  greater than zero, so nothing is reported.
\<close>

definition missing_percent :: "dataframe \<Rightarrow> cell list \<Rightarrow> rat" where
  "missing_percent df xs = Fract (int (length (filter isnull xs))) (int (nrows df)) * 100"

definition analyze_missing_data :: "dataframe \<Rightarrow> (string \<times> rat) list" where
  "analyze_missing_data df =
     (if nrows df = 0 then []
      else sort_key (\<lambda>p. - snd p)
             (filter (\<lambda>p. 0 < snd p) (map (\<lambda>p. (fst p, missing_percent df (snd p))) (cols df))))"

section \<open>The cleaners on a store of frame objects\<close>

text \<open>
  Python passes a frame by reference, and an assignment to a column changes the object
  the variable refers to. To see which object a cleaner changes, frames live in a store
  and variables hold references; a statement is a function from the store to a result
  (or an exception) and the next store.
\<close>

type_synonym store = "dataframe list"

type_synonym 'a stmt = "store \<Rightarrow> (error + 'a) \<times> store"

definition ret :: "'a \<Rightarrow> 'a stmt" where
  "ret x = (\<lambda>s. (Inr x, s))"

definition sbind :: "'a stmt \<Rightarrow> ('a \<Rightarrow> 'b stmt) \<Rightarrow> 'b stmt" where
  "sbind m f = (\<lambda>s. case m s of (Inl e, s') \<Rightarrow> (Inl e, s') | (Inr x, s') \<Rightarrow> f x s')"

text \<open>A computation that does not touch the store.\<close>

definition lift :: "error + 'a \<Rightarrow> 'a stmt" where
  "lift m = (\<lambda>s. (m, s))"

text \<open>\<^verbatim>\<open>df.copy()\<close> allocates a new object with the same contents.\<close>

definition copy_df :: "nat \<Rightarrow> nat stmt" where
  "copy_df r = (\<lambda>s. (Inr (length s), s @ [s ! r]))"

text \<open>\<^verbatim>\<open>c in df.columns\<close>, \<^verbatim>\<open>df[c]\<close>, \<^verbatim>\<open>df[c] = series\<close>, \<^verbatim>\<open>df[c] = scalar\<close> and
  \<^verbatim>\<open>df[names]\<close> (a new object) on the object at reference \<open>r\<close>.\<close>

definition has :: "nat \<Rightarrow> string \<Rightarrow> bool stmt" where
  "has r c = (\<lambda>s. (Inr (has_col (s ! r) c), s))"

definition col :: "nat \<Rightarrow> string \<Rightarrow> cell list stmt" where
  "col r c = (\<lambda>s. (getcol (s ! r) c, s))"

definition assign :: "nat \<Rightarrow> string \<Rightarrow> cell list \<Rightarrow> unit stmt" where
  "assign r c xs = (\<lambda>s. (Inr (), s[r := setcol (s ! r) c xs]))"

definition assign_scalar :: "nat \<Rightarrow> string \<Rightarrow> cell \<Rightarrow> unit stmt" where
  "assign_scalar r c v = (\<lambda>s. (Inr (), s[r := setcol_scalar (s ! r) c v]))"

definition select_df :: "nat \<Rightarrow> string list \<Rightarrow> nat stmt" where
  "select_df r cs = (\<lambda>s. case select (s ! r) cs of
                            Inl e \<Rightarrow> (Inl e, s)
                          | Inr d \<Rightarrow> (Inr (length s), s @ [d]))"

text \<open>clean_and_prepare_data of src/src/main.py, statement by statement; \<open>df\<close> is the
  reference the caller passes.\<close>

definition clean_and_prepare_data_main_st ::
  "(cell \<Rightarrow> (int \<times> nat \<times> nat) option) \<Rightarrow> nat \<Rightarrow> nat stmt" where
  "clean_and_prepare_data_main_st parse df =
     sbind (copy_df df) (\<lambda>df_clean.
     sbind (has df_clean ''title'') (\<lambda>b.
     sbind (if b then sbind (col df_clean ''title'') (\<lambda>t.
                      assign df_clean ''title'' (fillna (StrV ''Unknown Title'') t))
            else assign_scalar df_clean ''title'' (StrV ''Unknown Title'')) (\<lambda>u.
     sbind (has df_clean ''abstract'') (\<lambda>b.
     sbind (if b then sbind (col df_clean ''abstract'') (\<lambda>a.
                      assign df_clean ''abstract'' (fillna (StrV []) a))
            else assign_scalar df_clean ''abstract'' (StrV [])) (\<lambda>u.
     sbind (has df_clean ''journal'') (\<lambda>b.
     sbind (if b then sbind (col df_clean ''journal'') (\<lambda>j.
                      assign df_clean ''journal'' (fillna (StrV ''Unknown Journal'') j))
            else assign_scalar df_clean ''journal'' (StrV ''Unknown Journal'')) (\<lambda>u.
     sbind (has df_clean ''publish_time'') (\<lambda>b.
     sbind (if b then sbind (col df_clean ''publish_time'') (\<lambda>p.
                      sbind (assign df_clean ''publish_time'' (to_datetime parse p)) (\<lambda>u.
                      sbind (col df_clean ''publish_time'') (\<lambda>p'.
                      sbind (lift (dt_year p')) (\<lambda>y.
                      sbind (assign df_clean ''year'' y) (\<lambda>u.
                      sbind (col df_clean ''year'') (\<lambda>y'.
                      sbind (lift (astype_int (fillna (IntV 2020) y'))) (\<lambda>y2.
                      assign df_clean ''year'' y2)))))))
            else assign_scalar df_clean ''year'' (IntV 2020)) (\<lambda>u.
     sbind (col df_clean ''abstract'') (\<lambda>a.
     sbind (assign df_clean ''abstract_word_count'' (map word_count a)) (\<lambda>u.
     sbind (col df_clean ''title'') (\<lambda>t.
     sbind (assign df_clean ''title_word_count'' (map word_count t)) (\<lambda>u.
     sbind (col df_clean ''abstract_word_count'') (\<lambda>w.
     sbind (assign df_clean ''has_abstract'' (map gt0 w)) (\<lambda>u.
     ret df_clean)))))))))))))))"

text \<open>clean_and_prepare_data of data_cleaning.py, statement by statement.\<close>

definition clean_and_prepare_data_dc_st ::
  "(cell \<Rightarrow> (int \<times> nat \<times> nat) option) \<Rightarrow> nat \<Rightarrow> nat stmt" where
  "clean_and_prepare_data_dc_st parse df =
     sbind (copy_df df) (\<lambda>df_copy.
     sbind (lift (Inr important_cols)) (\<lambda>cs.
     sbind (\<lambda>s. (Inr (filter (has_col (s ! df_copy)) cs), s)) (\<lambda>available_cols.
     sbind (select_df df_copy available_cols) (\<lambda>df_clean.
     sbind (col df_clean ''title'') (\<lambda>t.
     sbind (assign df_clean ''title'' (fillna (StrV ''Unknown Title'') t)) (\<lambda>u.
     sbind (col df_clean ''abstract'') (\<lambda>a.
     sbind (assign df_clean ''abstract'' (fillna (StrV []) a)) (\<lambda>u.
     sbind (col df_clean ''publish_time'') (\<lambda>p.
     sbind (assign df_clean ''publish_time'' (to_datetime parse p)) (\<lambda>u.
     sbind (col df_clean ''publish_time'') (\<lambda>p'.
     sbind (lift (dt_year p')) (\<lambda>y.
     sbind (assign df_clean ''year'' y) (\<lambda>u.
     sbind (col df_clean ''abstract'') (\<lambda>a'.
     sbind (assign df_clean ''abstract_word_count'' (map word_count a')) (\<lambda>u.
     sbind (col df_clean ''title'') (\<lambda>t'.
     sbind (assign df_clean ''title_word_count'' (map word_count t')) (\<lambda>u.
     sbind (col df_clean ''abstract_word_count'') (\<lambda>w.
     sbind (assign df_clean ''has_abstract'' (map gt0 w)) (\<lambda>u.
     sbind (col df_clean ''journal'') (\<lambda>j.
     sbind (assign df_clean ''journal'' (fillna (StrV ''Unknown Journal'') j)) (\<lambda>u.
     sbind (col df_clean ''journal'') (\<lambda>j'.
     sbind (lift (str_method strip j')) (\<lambda>j2.
     sbind (lift (str_method title j2)) (\<lambda>j3.
     sbind (assign df_clean ''journal'' j3) (\<lambda>u.
     ret df_clean)))))))))))))))))))))))))"

section \<open>The pipeline on files and standard output\<close>

text \<open>
  What a run leaves behind: the files of the working directory (a data table or a chart
  image under a name) and the lines printed. A line is its text (emoji and blank lines
  left out) or the rendering of a pandas object, which is not modelled. The progress
  messages of the stages after loading are left out; the files they write are kept.
  The plotting library is not modelled beyond the file a chart is saved to.
\<close>

datatype artifact = Table dataframe | Chart

datatype out = Line string | Dump string

record world =
  files :: "string \<Rightarrow> artifact option"
  stdout :: "out list"

type_synonym 'a io = "world \<Rightarrow> (error + 'a) \<times> world"

definition wret :: "'a \<Rightarrow> 'a io" where
  "wret x = (\<lambda>w. (Inr x, w))"

definition wbind :: "'a io \<Rightarrow> ('a \<Rightarrow> 'b io) \<Rightarrow> 'b io" where
  "wbind m f = (\<lambda>w. case m w of (Inl e, w') \<Rightarrow> (Inl e, w') | (Inr x, w') \<Rightarrow> f x w')"

definition wlift :: "error + 'a \<Rightarrow> 'a io" where
  "wlift m = (\<lambda>w. (m, w))"

definition print :: "out \<Rightarrow> unit io" where
  "print l = (\<lambda>w. (Inr (), w\<lparr>stdout := stdout w @ [l]\<rparr>))"

text \<open>\<^verbatim>\<open>pd.read_csv(path)\<close>: FileNotFoundError when there is no such file; a file that is
  no table fails to parse (a ValueError).\<close>

definition read_csv :: "string \<Rightarrow> dataframe io" where
  "read_csv path = (\<lambda>w. (case files w path of
                            None \<Rightarrow> Inl FileNotFoundError
                          | Some (Table df) \<Rightarrow> Inr df
                          | Some Chart \<Rightarrow> Inl ValueError, w))"

definition savefig :: "string \<Rightarrow> unit io" where
  "savefig path = (\<lambda>w. (Inr (), w\<lparr>files := (files w)(path \<mapsto> Chart)\<rparr>))"

definition to_csv :: "dataframe \<Rightarrow> string \<Rightarrow> unit io" where
  "to_csv df path = (\<lambda>w. (Inr (), w\<lparr>files := (files w)(path \<mapsto> Table df)\<rparr>))"

text \<open>A column that pandas reads as numbers: not empty, integers and missing values only.\<close>

definition numeric_col :: "cell list \<Rightarrow> bool" where
  "numeric_col xs \<longleftrightarrow> xs \<noteq> [] \<and> list_all (\<lambda>c. is_int c \<or> isnull c) xs"

text \<open>load_and_explore_data of data_exploration.py: only FileNotFoundError is caught.\<close>

definition load_and_explore_data :: "dataframe option io" where
  "load_and_explore_data =
     wbind (print (Line ''Loading metadata.csv...'')) (\<lambda>u.
     (\<lambda>w. case read_csv ''metadata.csv'' w of
             (Inl FileNotFoundError, w') \<Rightarrow>
               wbind (print (Line ''metadata.csv not found. Please download it from CORD-19 dataset''))
                 (\<lambda>u. wret None) w'
           | (Inl e, w') \<Rightarrow> (Inl e, w')
           | (Inr df, w') \<Rightarrow>
               wbind (print (Line ''Data loaded successfully!'')) (\<lambda>u.
               wbind (print (Line (''DataFrame Dimensions: '' @ show_nat (nrows df) @ '' rows, ''
                        @ show_nat (length (cols df)) @ '' columns''))) (\<lambda>u.
               wbind (print (Line ''First few rows:'')) (\<lambda>u.
               wbind (print (Dump ''df.head()'')) (\<lambda>u.
               wbind (print (Line ''Data Types:'')) (\<lambda>u.
               wbind (print (Dump ''df.dtypes'')) (\<lambda>u.
               wbind (print (Line ''Missing Values:'')) (\<lambda>u.
               wbind (print (Dump ''missing_values[missing_values > 0]'')) (\<lambda>u.
               wbind (print (Line ''Basic Statistics for Numerical Columns:'')) (\<lambda>u.
               wbind (if list_ex (\<lambda>p. numeric_col (snd p)) (cols df)
                      then print (Dump ''df[numerical_cols].describe()'')
                      else print (Line ''No numerical columns found'')) (\<lambda>u.
               wret (Some df))))))))))) w'))"

text \<open>analyze_sources and run_complete_analysis of analysis_visualization.py: each
  analysis computes its result and then saves its chart.\<close>

definition analyze_sources :: "dataframe \<Rightarrow> unit io" where
  "analyze_sources df =
     (if has_col df ''source_x''
      then wbind (wlift (getcol df ''source_x'')) (\<lambda>x.
           wbind (wret (head 10 (value_counts x))) (\<lambda>source_counts.
           savefig ''sources_distribution.png''))
      else wret ())"

definition run_complete_analysis :: "dataframe \<Rightarrow> unit io" where
  "run_complete_analysis df =
     wbind (wlift (analyze_publication_trends df)) (\<lambda>yearly_counts.
     wbind (savefig ''publications_by_year.png'') (\<lambda>u.
     wbind (wlift (analyze_journals df)) (\<lambda>top_journals.
     wbind (savefig ''top_journals.png'') (\<lambda>u.
     wbind (wlift (analyze_titles df)) (\<lambda>word_freq.
     wbind (savefig ''top_title_words.png'') (\<lambda>u.
     wbind (savefig ''title_wordcloud.png'') (\<lambda>u.
     wbind (analyze_sources df) (\<lambda>u.
     wbind (wlift (getcol df ''abstract_word_count'')) (\<lambda>c.
     savefig ''abstract_length_distribution.png'')))))))))"

text \<open>The summary of main converts the smallest and the largest year to integers, which
  raises ValueError when no year is known.\<close>

definition summary :: "dataframe \<Rightarrow> unit io" where
  "summary df_clean =
     wbind (wlift (getcol df_clean ''year'')) (\<lambda>y.
     wbind (wlift (if list_all isnull y then Inl ValueError else Inr ())) (\<lambda>u.
     wbind (wlift (getcol df_clean ''journal'')) (\<lambda>j.
     wbind (wlift (getcol df_clean ''has_abstract'')) (\<lambda>h.
     wret ()))))"

text \<open>main of src/main.py.\<close>

definition main :: "(cell \<Rightarrow> (int \<times> nat \<times> nat) option) \<Rightarrow> unit io" where
  "main parse =
     wbind (print (Line (replicate 60 CHR ''=''))) (\<lambda>u.
     wbind (print (Line ''CORD-19 COVID-19 RESEARCH DATA ANALYSIS'')) (\<lambda>u.
     wbind (print (Line (replicate 60 CHR ''=''))) (\<lambda>u.
     wbind load_and_explore_data (\<lambda>df.
     (case df of
       None \<Rightarrow> wret ()
     | Some df \<Rightarrow>
         wbind (wret (analyze_missing_data df)) (\<lambda>missing_data.
         wbind (wlift (clean_and_prepare_data_dc parse df)) (\<lambda>df_clean.
         wbind (run_complete_analysis df_clean) (\<lambda>results.
         wbind (to_csv df_clean ''cleaned_metadata.csv'') (\<lambda>u.
         summary df_clean)))))))))"

text \<open>A working directory without metadata.csv.\<close>

definition empty_world :: world where
  "empty_world = \<lparr>files = Map.empty, stdout = []\<rparr>"


section \<open>Closed forms used in the proofs\<close>

text \<open>A column after the fill: its cells with the default for the missing ones, or the
  default throughout when the column is absent.\<close>

definition filled :: "dataframe \<Rightarrow> string \<Rightarrow> cell \<Rightarrow> cell list" where
  "filled df c v = (case getcol df c of Inr t \<Rightarrow> fillna v t | Inl e \<Rightarrow> replicate (nrows df) v)"

fun year_or_2020 :: "cell \<Rightarrow> cell" where
  "year_or_2020 (Stamp y m d) = IntV y"
| "year_or_2020 _ = IntV 2020"

definition years_main :: "(cell \<Rightarrow> (int \<times> nat \<times> nat) option) \<Rightarrow> dataframe \<Rightarrow> cell list" where
  "years_main parse df =
     (case getcol df ''publish_time'' of
        Inr p \<Rightarrow> map (\<lambda>c. year_or_2020 (to_datetime_cell parse c)) p
      | Inl e \<Rightarrow> replicate (nrows df) (IntV 2020))"

text \<open>The result of the cleaner of main.py, column by column.\<close>

definition cleaned_main :: "(cell \<Rightarrow> (int \<times> nat \<times> nat) option) \<Rightarrow> dataframe \<Rightarrow> dataframe" where
  "cleaned_main parse df =
     (let t = filled df ''title'' (StrV ''Unknown Title'');
          a = filled df ''abstract'' (StrV []);
          df3 = setcol (setcol (setcol df ''title'' t) ''abstract'' a)
                  ''journal'' (filled df ''journal'' (StrV ''Unknown Journal''));
          df4 = (case getcol df ''publish_time'' of
                   Inr p \<Rightarrow> setcol df3 ''publish_time'' (to_datetime parse p)
                 | Inl e \<Rightarrow> df3);
          df6 = setcol df4 ''year'' (years_main parse df)
      in setcol (setcol (setcol df6 ''abstract_word_count'' (map word_count a))
           ''title_word_count'' (map word_count t))
           ''has_abstract'' (map gt0 (map word_count a)))"

text \<open>The selection of the available important columns, and the result of the cleaner of
  data_cleaning.py on a frame whose title, abstract, publish_time and journal columns
  are \<open>T\<close>, \<open>A\<close>, \<open>P\<close> and \<open>J\<close>.\<close>

definition selected :: "dataframe \<Rightarrow> string list \<Rightarrow> dataframe" where
  "selected df cs =
     df\<lparr>cols := concat (map (\<lambda>c. case map_of (cols df) c of None \<Rightarrow> [] | Some xs \<Rightarrow> [(c, xs)]) cs)\<rparr>"

definition journal_clean :: "cell list \<Rightarrow> cell list" where
  "journal_clean J = map (str_apply title) (map (str_apply strip) (fillna (StrV ''Unknown Journal'') J))"

definition cleaned_dc ::
  "(cell \<Rightarrow> (int \<times> nat \<times> nat) option) \<Rightarrow> dataframe \<Rightarrow> cell list \<Rightarrow> cell list \<Rightarrow> cell list \<Rightarrow> cell list \<Rightarrow> dataframe" where
  "cleaned_dc parse df T A P J =
     (let t = fillna (StrV ''Unknown Title'') T;
          a = fillna (StrV []) A;
          df3 = setcol (setcol (setcol (selected df important_cols) ''title'' t) ''abstract'' a)
                  ''publish_time'' (to_datetime parse P);
          df4 = setcol df3 ''year'' (map year_of (to_datetime parse P));
          df7 = setcol (setcol (setcol df4 ''abstract_word_count'' (map word_count a))
                  ''title_word_count'' (map word_count t))
                  ''has_abstract'' (map gt0 (map word_count a))
      in setcol df7 ''journal'' (journal_clean J))"

section \<open>Sample inputs\<close>

text \<open>A two-row frame and a date parser that reads one date, used to instantiate the
  theorems below.\<close>

definition sample_df :: dataframe where
  "sample_df = \<lparr>nrows = 2, cols =
     [(''title'', [StrV ''Covid-19 Study of Lungs'', Null]),
      (''abstract'', [Null, StrV ''Two words'']),
      (''journal'', [StrV '' the lancet '', StrV ''The Lancet'']),
      (''publish_time'', [StrV ''2021-05-04'', StrV ''soon''])]\<rparr>"

definition sample_parse :: "cell \<Rightarrow> (int \<times> nat \<times> nat) option" where
  "sample_parse c = (if c = StrV ''2021-05-04'' then Some (2021, 5, 4) else None)"



text \<open>A frame whose publish dates are one readable date, one unreadable text and one
  missing value.\<close>

definition null_date_df :: dataframe where
  "null_date_df = \<lparr>nrows = 3, cols =
     [(''title'', [StrV ''A'', StrV ''B'', StrV ''C'']),
      (''abstract'', [StrV ''a'', StrV ''b'', StrV ''c'']),
      (''journal'', [StrV ''J'', StrV ''K'', StrV ''L'']),
      (''publish_time'', [StrV ''2021-05-04'', StrV ''soon'', Null])]\<rparr>"




text \<open>The titles and the stop words of the example in the specification.\<close>

definition example_titles :: "cell list" where
  "example_titles = [StrV ''Covid-19 Study of Lungs'', StrV ''Lung Study Results'']"


section \<open>Basic facts about the primitives\<close>

lemma bnd_Inr [simp]: "bnd (Inr x) f = f x"
  by (simp add: bnd_def)

lemma bnd_Inl [simp]: "bnd (Inl e) f = Inl e"
  by (simp add: bnd_def)

lemma map_of_upd_col: "map_of (upd_col c xs ps) c' = (if c' = c then Some xs else map_of ps c')"
  by (induction ps) auto

lemma fst_set_upd_col: "fst ` set (upd_col c xs ps) = insert c (fst ` set ps)"
  by (induction ps) auto



lemma getcol_setcol [simp]: "getcol (setcol df c xs) c' = (if c' = c then Inr xs else getcol df c')"
  by (simp add: getcol_def setcol_def map_of_upd_col)

lemma has_col_setcol [simp]: "has_col (setcol df c xs) c' \<longleftrightarrow> c' = c \<or> has_col df c'"
  by (auto simp: has_col_def setcol_def fst_set_upd_col)

lemma nrows_setcol [simp]: "nrows (setcol df c xs) = nrows df"
  by (simp add: setcol_def)


lemma has_col_getcol: "has_col df c \<longleftrightarrow> (\<exists>xs. getcol df c = Inr xs)"
proof (cases "map_of (cols df) c")
  case None
  then have "c \<notin> fst ` set (cols df)"
    by (simp add: map_of_eq_None_iff)
  with None show ?thesis
    by (simp add: has_col_def getcol_def)
next
  case (Some xs)
  then have "c \<in> fst ` set (cols df)"
    by (metis map_of_eq_None_iff option.distinct(1))
  with Some show ?thesis
    by (simp add: has_col_def getcol_def)
qed

lemma upd_col_twice: "upd_col c ys (upd_col c xs ps) = upd_col c ys ps"
  by (induction ps) auto

lemma setcol_twice [simp]: "setcol (setcol df c xs) c ys = setcol df c ys"
  by (simp add: setcol_def upd_col_twice)


section \<open>The cleaner of main.py in closed form\<close>

lemma not_has_col_getcol: "\<not> has_col df c \<Longrightarrow> getcol df c = Inl (KeyError c)"
  by (cases "map_of (cols df) c") (auto simp: has_col_getcol getcol_def)

lemma fill_step:
  "(if has_col df c then bnd (getcol df c) (\<lambda>t. Inr (setcol df c (fillna v t)))
    else Inr (setcol_scalar df c v)) = Inr (setcol df c (filled df c v))"
proof (cases "has_col df c")
  case True
  then obtain t where "getcol df c = Inr t" by (auto simp: has_col_getcol)
  with True show ?thesis by (simp add: filled_def)
next
  case False
  then show ?thesis by (simp add: not_has_col_getcol filled_def setcol_scalar_def)
qed

lemma is_datetime_to_datetime: "list_all is_datetime (to_datetime parse p)"
  by (auto simp: to_datetime_def to_datetime_cell_def list_all_iff split: option.splits)

lemma fill_years: "fillna (IntV 2020) (map year_of (to_datetime parse p)) = map (\<lambda>c. year_or_2020 (to_datetime_cell parse c)) p"
  by (auto simp: fillna_def to_datetime_def to_datetime_cell_def isnull_def split: option.splits)

lemma is_int_years: "list_all is_int (map (\<lambda>c. year_or_2020 (to_datetime_cell parse c)) p)"
  by (auto simp: list_all_iff to_datetime_cell_def split: option.splits)

lemma year_step:
  "(if has_col df ''publish_time''
          then bnd (getcol df ''publish_time'') (\<lambda>p.
               let df4 = setcol df ''publish_time'' (to_datetime parse p) in
               bnd (getcol df4 ''publish_time'') (\<lambda>p'.
               bnd (dt_year p') (\<lambda>y.
               let df5 = setcol df4 ''year'' y in
               bnd (getcol df5 ''year'') (\<lambda>y'.
               bnd (astype_int (fillna (IntV 2020) y')) (\<lambda>y2.
               Inr (setcol df5 ''year'' y2))))))
          else Inr (setcol_scalar df ''year'' (IntV 2020)))
   = Inr (setcol (case getcol df ''publish_time'' of
                   Inr p \<Rightarrow> setcol df ''publish_time'' (to_datetime parse p)
                 | Inl e \<Rightarrow> df) ''year'' (years_main parse df))"
proof (cases "has_col df ''publish_time''")
  case True
  then obtain t where "getcol df ''publish_time'' = Inr t" by (auto simp: has_col_getcol)
  with True show ?thesis by (simp add: years_main_def dt_year_def is_datetime_to_datetime astype_int_def fill_years is_int_years)
next
  case False
  then show ?thesis by (simp add: not_has_col_getcol years_main_def setcol_scalar_def)
qed

lemma filled_setcol [simp]: "c' \<noteq> c \<Longrightarrow> filled (setcol df c' xs) c v = filled df c v"
  by (simp add: filled_def split: sum.splits)

lemma years_main_setcol [simp]: "c' \<noteq> ''publish_time'' \<Longrightarrow> years_main parse (setcol df c' xs) = years_main parse df"
  by (simp add: years_main_def split: sum.splits)

lemma clean_main_eq: "clean_and_prepare_data_main parse df = Inr (cleaned_main parse df)"
  unfolding clean_and_prepare_data_main_def fill_step bnd_Inr year_step
  by (cases "getcol df ''publish_time''") (simp_all add: cleaned_main_def Let_def)

section \<open>The cleaner of data_cleaning.py in closed form\<close>

lemma select_cols_filter:
  "select_cols ps (filter (\<lambda>c. c \<in> fst ` set ps) cs)
     = Inr (concat (map (\<lambda>c. case map_of ps c of None \<Rightarrow> [] | Some xs \<Rightarrow> [(c, xs)]) cs))"
proof (induction cs)
  case Nil
  show ?case by simp
next
  case (Cons c cs)
  show ?case
  proof (cases "map_of ps c")
    case None
    then have "c \<notin> fst ` set ps" by (simp add: map_of_eq_None_iff)
    with None Cons show ?thesis by simp
  next
    case (Some xs)
    then have "c \<in> fst ` set ps" by (metis map_of_eq_None_iff option.distinct(1))
    with Some Cons show ?thesis by simp
  qed
qed

lemma select_available: "select df (filter (has_col df) cs) = Inr (selected df cs)"
proof -
  have "has_col df = (\<lambda>c. c \<in> fst ` set (cols df))"
    by (simp add: has_col_def fun_eq_iff)
  then show ?thesis
    by (simp add: select_def selected_def select_cols_filter)
qed

lemma map_of_concat_sel:
  "map_of (concat (map (\<lambda>c. case m c of None \<Rightarrow> [] | Some xs \<Rightarrow> [(c, xs)]) cs)) c'
     = (if c' \<in> set cs then m c' else None)"
  by (induction cs) (auto split: option.splits)

lemma getcol_selected:
  "getcol (selected df cs) c = (if c \<in> set cs then getcol df c else Inl (KeyError c))"
  by (simp add: getcol_def selected_def map_of_concat_sel)

lemma nrows_selected [simp]: "nrows (selected df cs) = nrows df"
  by (simp add: selected_def)

lemma str_method_twice:
  "bnd (str_method f xs) (\<lambda>a. bnd (str_method g a) k)
     = (if xs \<noteq> [] \<and> list_all (\<lambda>c. \<not> is_str c) xs then Inl AttributeError
        else k (map (str_apply g) (map (str_apply f) xs)))"
proof (cases "xs \<noteq> [] \<and> list_all (\<lambda>c. \<not> is_str c) xs")
  case True
  then show ?thesis by (simp add: str_method_def)
next
  case False
  then have 1: "str_method f xs = Inr (map (str_apply f) xs)"
    by (simp add: str_method_def)
  from False have "xs = [] \<or> (\<exists>c\<in>set xs. is_str c)" by (auto simp: list_all_iff)
  then have "\<not> (map (str_apply f) xs \<noteq> [] \<and> list_all (\<lambda>c. \<not> is_str c) (map (str_apply f) xs))"
  proof
    assume "xs = []" then show ?thesis by simp
  next
    assume "\<exists>c\<in>set xs. is_str c"
    then obtain c where c: "c \<in> set xs" "is_str c" by blast
    from c(2) have "is_str (str_apply f c)" by (cases c) simp_all
    with c(1) show ?thesis by (auto simp: list_all_iff)
  qed
  then have 2: "str_method g (map (str_apply f) xs) = Inr (map (str_apply g) (map (str_apply f) xs))"
    unfolding str_method_def by (rule if_not_P)
  from False show ?thesis unfolding 1 bnd_Inr 2 by (rule if_not_P [symmetric])
qed

lemma fillna_Nil_iff [simp]: "fillna v xs = [] \<longleftrightarrow> xs = []"
  by (simp add: fillna_def)

lemma length_fillna [simp]: "length (fillna v xs) = length xs"
  by (simp add: fillna_def)

lemma in_important:
  "''title'' \<in> set important_cols" "''abstract'' \<in> set important_cols"
  "''publish_time'' \<in> set important_cols" "''journal'' \<in> set important_cols"
  by (simp_all add: important_cols_def)

lemma clean_dc_eq:
  assumes "getcol df ''title'' = Inr T" "getcol df ''abstract'' = Inr A"
    "getcol df ''publish_time'' = Inr P" "getcol df ''journal'' = Inr J"
  shows "clean_and_prepare_data_dc parse df =
     (if J \<noteq> [] \<and> list_all (\<lambda>c. \<not> is_str c) (fillna (StrV ''Unknown Journal'') J)
      then Inl AttributeError else Inr (cleaned_dc parse df T A P J))"
  using assms
  by (simp add: clean_and_prepare_data_dc_def select_available getcol_selected in_important
      dt_year_def is_datetime_to_datetime str_method_twice cleaned_dc_def journal_clean_def Let_def)


section \<open>Shape and columns of the cleaned frames\<close>



lemma length_to_datetime [simp]: "length (to_datetime parse p) = length p"
  by (simp add: to_datetime_def)



lemma getcol_cleaned_main:
  "getcol (cleaned_main parse df) ''title'' = Inr (filled df ''title'' (StrV ''Unknown Title''))"
  "getcol (cleaned_main parse df) ''abstract'' = Inr (filled df ''abstract'' (StrV []))"
  "getcol (cleaned_main parse df) ''journal'' = Inr (filled df ''journal'' (StrV ''Unknown Journal''))"
  "getcol (cleaned_main parse df) ''year'' = Inr (years_main parse df)"
  "getcol (cleaned_main parse df) ''abstract_word_count'' = Inr (map word_count (filled df ''abstract'' (StrV [])))"
  "getcol (cleaned_main parse df) ''has_abstract'' = Inr (map gt0 (map word_count (filled df ''abstract'' (StrV []))))"
  by (cases "getcol df ''publish_time''"; simp add: cleaned_main_def Let_def)+

lemma filled_no_null: "v \<noteq> Null \<Longrightarrow> Null \<notin> set (filled df c v)"
  by (cases "getcol df c") (auto simp: filled_def fillna_def isnull_def)

lemma years_main_int: "list_all is_int (years_main parse df)"
proof (cases "getcol df ''publish_time''")
  case (Inl e)
  then show ?thesis by (simp add: years_main_def list_all_iff)
next
  case (Inr p)
  then show ?thesis by (simp add: years_main_def is_int_years)
qed



lemma getcol_cleaned_dc:
  "getcol (cleaned_dc parse df T A P J) ''title'' = Inr (fillna (StrV ''Unknown Title'') T)"
  "getcol (cleaned_dc parse df T A P J) ''abstract'' = Inr (fillna (StrV []) A)"
  "getcol (cleaned_dc parse df T A P J) ''journal'' = Inr (journal_clean J)"
  "getcol (cleaned_dc parse df T A P J) ''year'' = Inr (map year_of (to_datetime parse P))"
  "getcol (cleaned_dc parse df T A P J) ''abstract_word_count'' = Inr (map word_count (fillna (StrV []) A))"
  "getcol (cleaned_dc parse df T A P J) ''has_abstract'' = Inr (map gt0 (map word_count (fillna (StrV []) A)))"
  by (simp_all add: cleaned_dc_def Let_def)

lemma nrows_cleaned_dc: "nrows (cleaned_dc parse df T A P J) = nrows df"
  by (simp add: cleaned_dc_def Let_def)


lemma sample_getcol:
  "getcol sample_df ''title'' = Inr [StrV ''Covid-19 Study of Lungs'', Null]"
  "getcol sample_df ''abstract'' = Inr [Null, StrV ''Two words'']"
  "getcol sample_df ''journal'' = Inr [StrV '' the lancet '', StrV ''The Lancet'']"
  "getcol sample_df ''publish_time'' = Inr [StrV ''2021-05-04'', StrV ''soon'']"
  by (simp_all add: sample_df_def getcol_def)




section \<open>Claims about the cleaners\<close>








text \<open>
  C1. The table returned by the cleaning operation has no null values in the title,
  abstract, journal and year columns. The cleaner of data_cleaning.py breaks this: it
  never fills the year, so a row whose publish date is unreadable or missing keeps a null
  year.
\<close>

theorem data_cleaning_leaves_null_year:
  "\<exists>df'. clean_and_prepare_data_dc sample_parse null_date_df = Inr df' \<and>
     getcol df' ''year'' = Inr [IntV 2021, Null, Null]"
proof -
  have g: "getcol null_date_df ''title'' = Inr [StrV ''A'', StrV ''B'', StrV ''C'']"
    "getcol null_date_df ''abstract'' = Inr [StrV ''a'', StrV ''b'', StrV ''c'']"
    "getcol null_date_df ''publish_time'' = Inr [StrV ''2021-05-04'', StrV ''soon'', Null]"
    "getcol null_date_df ''journal'' = Inr [StrV ''J'', StrV ''K'', StrV ''L'']"
    by (simp_all add: null_date_df_def getcol_def)
  show ?thesis
    unfolding clean_dc_eq [OF g]
    by (simp add: getcol_cleaned_dc fillna_def isnull_def to_datetime_def to_datetime_cell_def sample_parse_def)
qed

text \<open>The cleaner of main.py does keep the invariant, on every frame.\<close>

lemma clean_main_no_nulls:
  "\<exists>df' T A J Y. clean_and_prepare_data_main parse df = Inr df' \<and>
     getcol df' ''title'' = Inr T \<and> Null \<notin> set T \<and>
     getcol df' ''abstract'' = Inr A \<and> Null \<notin> set A \<and>
     getcol df' ''journal'' = Inr J \<and> Null \<notin> set J \<and>
     getcol df' ''year'' = Inr Y \<and> list_all is_int Y"
  by (simp add: clean_main_eq getcol_cleaned_main filled_no_null years_main_int)

section \<open>Facts about counting and ordering\<close>

lemma distinct_uniq [simp]: "distinct (uniq xs)"
  by (simp add: uniq_def)

lemma set_uniq [simp]: "set (uniq xs) = set xs"
  by (simp add: uniq_def)


lemma map_fst_tally [simp]: "map fst (tally xs) = uniq xs"
  by (simp add: tally_def comp_def)

lemma tally_count: "(k, n) \<in> set (tally xs) \<Longrightarrow> n = count_list xs k"
  by (auto simp: tally_def)



lemma set_sort_desc [simp]: "set (sort_desc r) = set r"
  by (simp add: sort_desc_def)

lemma length_sort_desc [simp]: "length (sort_desc r) = length r"
  by (simp add: sort_desc_def)












section \<open>Claims about the aggregations\<close>




text \<open>On the frame returned by the cleaner of data_cleaning.py the rows with a null year
  are not counted: three rows, one counted.\<close>

lemma yearly_counts_short_after_data_cleaning:
  "\<exists>df'. clean_and_prepare_data_dc sample_parse null_date_df = Inr df' \<and> nrows df' = 3 \<and>
     analyze_publication_trends df' = Inr [(IntV 2021, 1)]"
proof -
  have g: "getcol null_date_df ''title'' = Inr [StrV ''A'', StrV ''B'', StrV ''C'']"
    "getcol null_date_df ''abstract'' = Inr [StrV ''a'', StrV ''b'', StrV ''c'']"
    "getcol null_date_df ''publish_time'' = Inr [StrV ''2021-05-04'', StrV ''soon'', Null]"
    "getcol null_date_df ''journal'' = Inr [StrV ''J'', StrV ''K'', StrV ''L'']"
    by (simp_all add: null_date_df_def getcol_def)
  have n: "nrows null_date_df = 3" by (simp add: null_date_df_def)
  show ?thesis
    unfolding clean_dc_eq [OF g]
    by (simp add: getcol_cleaned_dc nrows_cleaned_dc n fillna_def isnull_def to_datetime_def to_datetime_cell_def
        sample_parse_def analyze_publication_trends_def value_counts_def tally_def uniq_def sort_desc_def sort_index_def)
qed



lemma sorted_desc_sort_key_neg:
  "sorted_wrt (\<lambda>a b. b \<le> a) (map snd (sort_key (\<lambda>p. - snd p) (r :: ('a \<times> rat) list)))"
proof -
  have "sorted (map (\<lambda>p. - snd p) (sort_key (\<lambda>p. - snd p) r))"
    by (rule sorted_sort_key)
  then show ?thesis
    by (simp add: sorted_wrt_map sorted_map del: sort_key_simps)
qed

text \<open>
  C9. For every input table, the missing-data profiler returns the (column,
  missing-percentage) pairs of exactly the columns whose missing percentage is strictly
  greater than zero, ordered descending by that percentage. (A table without rows has no
  percentages, and the profile is empty.)
\<close>

theorem missing_data_profile:
  "sorted_wrt (\<lambda>a b. b \<le> a) (map snd (analyze_missing_data df)) \<and>
   (\<forall>c p. (c, p) \<in> set (analyze_missing_data df) \<longleftrightarrow>
      nrows df \<noteq> 0 \<and> 0 < p \<and> (\<exists>xs. (c, xs) \<in> set (cols df) \<and> p = missing_percent df xs)) \<and>
   length (analyze_missing_data df) =
      (if nrows df = 0 then 0 else length (filter (\<lambda>q. 0 < missing_percent df (snd q)) (cols df)))"
proof (cases "nrows df = 0")
  case True
  then show ?thesis by (simp add: analyze_missing_data_def)
next
  case False
  have 1: "sorted_wrt (\<lambda>a b. b \<le> a) (map snd (analyze_missing_data df))"
    using False by (simp add: analyze_missing_data_def sorted_desc_sort_key_neg del: sort_key_simps)
  have 2: "(c, p) \<in> set (analyze_missing_data df) \<longleftrightarrow>
      nrows df \<noteq> 0 \<and> 0 < p \<and> (\<exists>xs. (c, xs) \<in> set (cols df) \<and> p = missing_percent df xs)" for c p
    using False by (force simp: analyze_missing_data_def image_iff)
  have 3: "length (analyze_missing_data df) = length (filter (\<lambda>q. 0 < missing_percent df (snd q)) (cols df))"
    using False by (simp add: analyze_missing_data_def filter_map comp_def)
  from 1 2 3 False show ?thesis by simp
qed

theorem missing_data_profile_witness:
  "sorted_wrt (\<lambda>a b. b \<le> a) (map snd (analyze_missing_data sample_df)) \<and>
   (''title'', 50) \<in> set (analyze_missing_data sample_df) \<and>
   length (analyze_missing_data sample_df) = 2"
proof -
  have n: "nrows sample_df \<noteq> 0"
    by (simp add: sample_df_def)
  have p: "missing_percent sample_df [StrV ''Covid-19 Study of Lungs'', Null] = 50"
    by (simp add: missing_percent_def sample_df_def isnull_def Fract_of_int_quotient)
  have c: "(''title'', [StrV ''Covid-19 Study of Lungs'', Null]) \<in> set (cols sample_df)"
    by (simp add: sample_df_def)
  have l: "length (filter (\<lambda>q. 0 < missing_percent sample_df (snd q)) (cols sample_df)) = 2"
    by (simp add: missing_percent_def sample_df_def isnull_def Fract_of_int_quotient)
  from missing_data_profile [of sample_df] n p c l show ?thesis
    by force
qed

text \<open>The word frequencies of the example titles under the three stop-word sets.\<close>

lemma example_words:
  "findall_words (lower (join (map py_str example_titles)))
     = [''covid'', ''study'', ''lungs'', ''lung'', ''study'', ''results'']"
  by code_simp


lemma example_word_freq_main:
  "analyze_titles_main \<lparr>nrows = 2, cols = [(''title'', example_titles)]\<rparr>
     = Inr [(''lungs'', 1), (''lung'', 1), (''results'', 1)]"
  by (simp add: analyze_titles_main_def getcol_def title_word_freq_def example_words stop_words_main_def tally_def uniq_def sort_desc_def)

lemma example_word_freq_av:
  "analyze_titles \<lparr>nrows = 2, cols = [(''title'', example_titles)]\<rparr>
     = Inr [(''covid'', 1), (''study'', 2), (''lungs'', 1), (''lung'', 1), (''results'', 1)]"
proof -
  have "filter (\<lambda>c. \<not> isnull c) example_titles = example_titles"
    by (simp add: example_titles_def isnull_def)
  then show ?thesis
  by (simp add: analyze_titles_def getcol_def title_word_freq_def example_words stop_words_av_def tally_def uniq_def sort_desc_def)
qed


section \<open>Letter case and titles\<close>












lemma title_strip_unknown: "title (strip ''Unknown Journal'') = ''Unknown Journal''"
  by code_simp

section \<open>Journal names after cleaning\<close>









section \<open>The cleaners on the store\<close>

lemma sbind_ret [simp]: "sbind (ret x) f s = f x s"
  by (simp add: sbind_def ret_def)

lemma sbind_copy [simp]: "sbind (copy_df r) f s = f (length s) (s @ [s ! r])"
  by (simp add: sbind_def copy_df_def)

lemma sbind_has [simp]: "sbind (has r c) f s = f (has_col (s ! r) c) s"
  by (simp add: sbind_def has_def)

lemma sbind_col [simp]:
  "sbind (col r c) f s = (case getcol (s ! r) c of Inl e \<Rightarrow> (Inl e, s) | Inr t \<Rightarrow> f t s)"
  by (simp add: sbind_def col_def split: sum.splits)

lemma sbind_assign [simp]: "sbind (assign r c xs) f s = f () (s[r := setcol (s ! r) c xs])"
  by (simp add: sbind_def assign_def)

lemma sbind_assign_scalar [simp]:
  "sbind (assign_scalar r c v) f s = f () (s[r := setcol_scalar (s ! r) c v])"
  by (simp add: sbind_def assign_scalar_def)

lemma sbind_lift [simp]:
  "sbind (lift m) f s = (case m of Inl e \<Rightarrow> (Inl e, s) | Inr x \<Rightarrow> f x s)"
  by (simp add: sbind_def lift_def split: sum.splits)

lemma sbind_assoc: "sbind (sbind m g) f = sbind m (\<lambda>x. sbind (g x) f)"
  by (auto simp: sbind_def fun_eq_iff split: prod.splits sum.splits)

lemma sbind_if: "sbind (if b then m else n) f = (if b then sbind m f else sbind n f)"
  by simp

lemma assign_last [simp]: "assign (length s) c xs (s @ [d]) = (Inr (), s @ [setcol d c xs])"
  by (simp add: assign_def)

lemma fill_step_st:
  "sbind (has (length s) c) (\<lambda>b.
     sbind (if b then sbind (col (length s) c) (\<lambda>t. assign (length s) c (fillna v t))
            else assign_scalar (length s) c v) f) (s @ [d])
   = f () (s @ [setcol d c (filled d c v)])"
proof (cases "has_col d c")
  case True
  then obtain t where "getcol d c = Inr t" by (auto simp: has_col_getcol)
  with True show ?thesis by (simp add: filled_def sbind_assoc)
next
  case False
  then show ?thesis by (simp add: not_has_col_getcol filled_def setcol_scalar_def)
qed

lemma clean_main_st_eq:
  "clean_and_prepare_data_main_st parse r s = (Inr (length s), s @ [cleaned_main parse (s ! r)])"
proof (cases "getcol (s ! r) ''publish_time''")
  case (Inl e)
  then have "\<not> has_col (s ! r) ''publish_time''" by (simp add: has_col_getcol)
  with Inl show ?thesis
    unfolding clean_and_prepare_data_main_st_def sbind_copy fill_step_st
    by (simp add: cleaned_main_def Let_def ret_def setcol_scalar_def years_main_def)
next
  case (Inr p)
  then have "has_col (s ! r) ''publish_time''" by (simp add: has_col_getcol)
  with Inr show ?thesis
    unfolding clean_and_prepare_data_main_st_def sbind_copy fill_step_st
    by (simp add: cleaned_main_def Let_def ret_def sbind_assoc dt_year_def is_datetime_to_datetime
        astype_int_def fill_years is_int_years years_main_def)
qed


lemma nth_two [simp]: "(s @ [a, b]) ! Suc (length s) = b"
  by (simp add: nth_append)

lemma upd_two [simp]: "(s @ [a, b])[Suc (length s) := c] = s @ [a, c]"
  by (simp add: list_update_append)

lemma sbind_select [simp]:
  "sbind (select_df r cs) f s = (case select (s ! r) cs of Inl e \<Rightarrow> (Inl e, s) | Inr d \<Rightarrow> f (length s) (s @ [d]))"
  by (simp add: sbind_def select_df_def split: sum.splits)

lemma sbind_read [simp]: "sbind (\<lambda>s. (Inr (g s), s)) f s = f (g s) s"
  by (simp add: sbind_def)

lemma clean_dc_st_frame:
  "\<exists>res d. clean_and_prepare_data_dc_st parse r s = (res, s @ [s ! r, d]) \<and>
     (case res of Inl e \<Rightarrow> clean_and_prepare_data_dc parse (s ! r) = Inl e
      | Inr b \<Rightarrow> b = Suc (length s) \<and> clean_and_prepare_data_dc parse (s ! r) = Inr d)"
  unfolding clean_and_prepare_data_dc_st_def clean_and_prepare_data_dc_def
  by (simp add: select_available getcol_selected in_important Let_def ret_def bnd_def split: sum.splits)

text \<open>
  C4. The claim is that the cleaner mutates the input table in place, so that after
  clean_and_prepare_data(df) the object df holds the filled and derived columns. Both
  cleaners start with df.copy() and work on the copy: on a store that holds the sample
  frame, the object passed in is the same afterwards (its second title still missing, no
  year column), and the result is another object.
\<close>

theorem cleaner_mutates_input_counterexample:
  "fst (clean_and_prepare_data_main_st sample_parse 0 [sample_df]) = Inr 1 \<and>
   snd (clean_and_prepare_data_main_st sample_parse 0 [sample_df]) ! 0 = sample_df \<and>
   fst (clean_and_prepare_data_dc_st sample_parse 0 [sample_df]) = Inr 2 \<and>
   snd (clean_and_prepare_data_dc_st sample_parse 0 [sample_df]) ! 0 = sample_df \<and>
   getcol sample_df ''title'' = Inr [StrV ''Covid-19 Study of Lungs'', Null] \<and>
   \<not> has_col sample_df ''year''"
proof -
  have m: "clean_and_prepare_data_main_st sample_parse 0 [sample_df]
             = (Inr 1, [sample_df, cleaned_main sample_parse sample_df])"
    using clean_main_st_eq [of sample_parse 0 "[sample_df]"] by simp
  have "clean_and_prepare_data_dc sample_parse sample_df =
     Inr (cleaned_dc sample_parse sample_df [StrV ''Covid-19 Study of Lungs'', Null]
        [Null, StrV ''Two words''] [StrV ''2021-05-04'', StrV ''soon'']
        [StrV '' the lancet '', StrV ''The Lancet''])"
    using clean_dc_eq [OF sample_getcol(1,2,4,3), of sample_parse]
    by (simp add: fillna_def isnull_def)
  moreover from clean_dc_st_frame [of sample_parse 0 "[sample_df]"] obtain res d where
    e: "clean_and_prepare_data_dc_st sample_parse 0 [sample_df] = (res, [sample_df] @ [[sample_df] ! 0, d])"
    and c: "case res of Inl e \<Rightarrow> clean_and_prepare_data_dc sample_parse ([sample_df] ! 0) = Inl e
        | Inr b \<Rightarrow> b = Suc (length [sample_df]) \<and>
            clean_and_prepare_data_dc sample_parse ([sample_df] ! 0) = Inr d"
    by blast
  ultimately have "res = Inr 2"
    using c by (cases res) simp_all
  with e have d: "fst (clean_and_prepare_data_dc_st sample_parse 0 [sample_df]) = Inr 2 \<and>
           snd (clean_and_prepare_data_dc_st sample_parse 0 [sample_df]) ! 0 = sample_df"
    by simp
  have y: "\<not> has_col sample_df ''year''"
    by (simp add: has_col_def sample_df_def)
  from m d y sample_getcol(1) show ?thesis by simp
qed

text \<open>
  C4, amended. Neither cleaner mutates the input table: each works on a copy. After
  clean_and_prepare_data(df) the store still holds every earlier object unchanged, the
  object df among them, and the table returned is a new object, which holds the filled and
  derived columns (the result of the cleaner on the contents of df).
\<close>

theorem cleaner_works_on_copy:
  assumes "r < length s"
  shows "(\<exists>b s'. clean_and_prepare_data_main_st parse r s = (Inr b, s') \<and>
            take (length s) s' = s \<and> s' ! r = s ! r \<and> length s \<le> b \<and> b < length s' \<and>
            clean_and_prepare_data_main parse (s ! r) = Inr (s' ! b)) \<and>
         (\<exists>res s'. clean_and_prepare_data_dc_st parse r s = (res, s') \<and>
            take (length s) s' = s \<and> s' ! r = s ! r \<and>
            (\<forall>b. res = Inr b \<longrightarrow> length s \<le> b \<and> b < length s' \<and>
               clean_and_prepare_data_dc parse (s ! r) = Inr (s' ! b)))"
proof
  from assms show "\<exists>b s'. clean_and_prepare_data_main_st parse r s = (Inr b, s') \<and>
            take (length s) s' = s \<and> s' ! r = s ! r \<and> length s \<le> b \<and> b < length s' \<and>
            clean_and_prepare_data_main parse (s ! r) = Inr (s' ! b)"
    by (simp add: clean_main_st_eq clean_main_eq nth_append)
next
  from clean_dc_st_frame [of parse r s] obtain res d where
    e: "clean_and_prepare_data_dc_st parse r s = (res, s @ [s ! r, d])" and
    c: "case res of Inl e \<Rightarrow> clean_and_prepare_data_dc parse (s ! r) = Inl e
        | Inr b \<Rightarrow> b = Suc (length s) \<and> clean_and_prepare_data_dc parse (s ! r) = Inr d"
    by blast
  from c have "\<forall>b. res = Inr b \<longrightarrow> length s \<le> b \<and> b < length (s @ [s ! r, d]) \<and>
               clean_and_prepare_data_dc parse (s ! r) = Inr ((s @ [s ! r, d]) ! b)"
    by (auto split: sum.splits)
  with e assms show "\<exists>res s'. clean_and_prepare_data_dc_st parse r s = (res, s') \<and>
            take (length s) s' = s \<and> s' ! r = s ! r \<and>
            (\<forall>b. res = Inr b \<longrightarrow> length s \<le> b \<and> b < length s' \<and>
               clean_and_prepare_data_dc parse (s ! r) = Inr (s' ! b))"
    by (intro exI [of _ res] exI [of _ "s @ [s ! r, d]"]) (simp add: nth_append)
qed

theorem cleaner_works_on_copy_witness:
  "(0::nat) < length [sample_df] \<and>
   (\<exists>b s'. clean_and_prepare_data_main_st sample_parse 0 [sample_df] = (Inr b, s') \<and>
      s' ! 0 = [sample_df] ! 0 \<and> length [sample_df] \<le> b \<and>
      clean_and_prepare_data_main sample_parse ([sample_df] ! 0) = Inr (s' ! b))"
proof -
  have l: "(0::nat) < length [sample_df]" by simp
  from cleaner_works_on_copy [OF l, of sample_parse] l show ?thesis
    by blast
qed

section \<open>The pipeline without its input file\<close>

lemma wbind_print [simp]: "wbind (print l) f w = f () (w\<lparr>stdout := stdout w @ [l]\<rparr>)"
  by (simp add: wbind_def print_def)

lemma wbind_wret [simp]: "wbind (wret x) f w = f x w"
  by (simp add: wbind_def wret_def)

lemma load_absent:
  assumes "files w ''metadata.csv'' = None"
  shows "load_and_explore_data w =
           (Inr None, w\<lparr>stdout := stdout w @ [Line ''Loading metadata.csv...'',
              Line ''metadata.csv not found. Please download it from CORD-19 dataset'']\<rparr>)"
  using assms by (simp add: load_and_explore_data_def read_csv_def wret_def)

lemma wbind_load_absent:
  "files w ''metadata.csv'' = None \<Longrightarrow>
   wbind load_and_explore_data f w =
     f None (w\<lparr>stdout := stdout w @ [Line ''Loading metadata.csv...'',
              Line ''metadata.csv not found. Please download it from CORD-19 dataset'']\<rparr>)"
  by (simp add: wbind_def load_absent)

text \<open>
  C8. When the input file is absent, the loader reports the failure and returns None
  instead of raising, and the entry point checks this result and halts cleanly without
  producing any output artifact: main returns normally, has printed its banner and the
  loader's two lines, and the files are what they were.
\<close>

theorem missing_file_halts_cleanly:
  assumes "files w ''metadata.csv'' = None"
  shows "load_and_explore_data w =
           (Inr None, w\<lparr>stdout := stdout w @ [Line ''Loading metadata.csv...'',
              Line ''metadata.csv not found. Please download it from CORD-19 dataset'']\<rparr>) \<and>
         main parse w =
           (Inr (), w\<lparr>stdout := stdout w @
              [Line (replicate 60 CHR ''=''), Line ''CORD-19 COVID-19 RESEARCH DATA ANALYSIS'',
               Line (replicate 60 CHR ''=''), Line ''Loading metadata.csv...'',
               Line ''metadata.csv not found. Please download it from CORD-19 dataset'']\<rparr>) \<and>
         files (snd (main parse w)) = files w"
proof -
  from assms have m: "main parse w =
           (Inr (), w\<lparr>stdout := stdout w @
              [Line (replicate 60 CHR ''=''), Line ''CORD-19 COVID-19 RESEARCH DATA ANALYSIS'',
               Line (replicate 60 CHR ''=''), Line ''Loading metadata.csv...'',
               Line ''metadata.csv not found. Please download it from CORD-19 dataset'']\<rparr>)"
    by (simp add: main_def wbind_load_absent wret_def)
  then have "files (snd (main parse w)) = files w" by simp
  with m load_absent [OF assms] show ?thesis by simp
qed

theorem missing_file_halts_cleanly_witness:
  "files empty_world ''metadata.csv'' = None \<and>
   fst (load_and_explore_data empty_world) = Inr None \<and>
   fst (main sample_parse empty_world) = Inr () \<and>
   files (snd (main sample_parse empty_world)) = files empty_world"
proof -
  have h: "files empty_world ''metadata.csv'' = None" by (simp add: empty_world_def)
  from missing_file_halts_cleanly [OF h, of sample_parse] h show ?thesis by simp
qed

lemma wbind_wlift [simp]:
  "wbind (wlift m) f w = (case m of Inl e \<Rightarrow> (Inl e, w) | Inr x \<Rightarrow> f x w)"
  by (simp add: wbind_def wlift_def split: sum.splits)

lemma wbind_to_csv [simp]: "wbind (to_csv d p) f w = f () (w\<lparr>files := (files w)(p \<mapsto> Table d)\<rparr>)"
  by (simp add: wbind_def to_csv_def)

lemma load_present:
  "files w ''metadata.csv'' = Some (Table df) \<Longrightarrow>
   fst (load_and_explore_data w) = Inr (Some df) \<and> files (snd (load_and_explore_data w)) = files w"
  by (simp add: load_and_explore_data_def read_csv_def wbind_def wret_def print_def)

lemma summary_world: "snd (summary d w) = w"
  by (simp add: summary_def wret_def split: sum.splits)

text \<open>With the file present, a run that ends normally has written the cleaned table.\<close>

lemma main_writes_cleaned_table:
  assumes "files w ''metadata.csv'' = Some (Table df)" and "main parse w = (Inr (), w')"
  shows "\<exists>d. clean_and_prepare_data_dc parse df = Inr d \<and>
           files w' ''cleaned_metadata.csv'' = Some (Table d)"
proof -
  let ?w0 = "w\<lparr>stdout := stdout w @ [Line (replicate 60 CHR ''=''),
      Line ''CORD-19 COVID-19 RESEARCH DATA ANALYSIS'', Line (replicate 60 CHR ''='')]\<rparr>"
  let ?rest = "\<lambda>df. case df of None \<Rightarrow> wret ()
     | Some df \<Rightarrow>
         wbind (wret (analyze_missing_data df)) (\<lambda>missing_data.
         wbind (wlift (clean_and_prepare_data_dc parse df)) (\<lambda>df_clean.
         wbind (run_complete_analysis df_clean) (\<lambda>results.
         wbind (to_csv df_clean ''cleaned_metadata.csv'') (\<lambda>u.
         summary df_clean))))"
  have m: "main parse w = wbind load_and_explore_data ?rest ?w0"
    by (simp add: main_def)
  from assms(1) have "files ?w0 ''metadata.csv'' = Some (Table df)" by simp
  from load_present [OF this] obtain w1 where
    l: "load_and_explore_data ?w0 = (Inr (Some df), w1)"
    by (cases "load_and_explore_data ?w0") auto
  with m assms(2) have r: "?rest (Some df) w1 = (Inr (), w')"
    by (simp add: wbind_def)
  then obtain d where d: "clean_and_prepare_data_dc parse df = Inr d"
    by (cases "clean_and_prepare_data_dc parse df") simp_all
  obtain x w2 where a: "run_complete_analysis d w1 = (x, w2)"
    by (cases "run_complete_analysis d w1")
  from r d a have s: "summary d (w2\<lparr>files := (files w2)(''cleaned_metadata.csv'' \<mapsto> Table d)\<rparr>) = (Inr (), w')"
    by (cases x) (simp_all add: wbind_def to_csv_def wret_def wlift_def)
  from s summary_world [of d "w2\<lparr>files := (files w2)(''cleaned_metadata.csv'' \<mapsto> Table d)\<rparr>"]
  have "w' = w2\<lparr>files := (files w2)(''cleaned_metadata.csv'' \<mapsto> Table d)\<rparr>" by simp
  with d show ?thesis by simp
qed

end
